theory Spec2Isabelle
  imports Complex_Main
begin

section \<open>MeshBuilder: a shallow embedding of core/src/meshing/MeshBuilder.cpp\<close>

text \<open>
  Modelling conventions.
  \<^item> A C++ \<open>double\<close> is a \<open>real\<close>: the properties below are about which buffer receives
    which value and which terms are summed, not about rounding.
  \<^item> A C++ \<open>int\<close> is an \<open>int\<close>; the model describes runs in which no \<open>int\<close> leaves its
    range (signed overflow has no defined behaviour in the source).
  \<^item> A \<open>std::vector\<close> is a list and \<open>push_back\<close> appends one element at the end.
  \<^item> A buffer of \<open>triangulateio\<close> is a list, a buffer pointer that the source compares
    with or sets to \<open>nullptr\<close> is an \<open>option\<close>. The source reads these buffers through
    raw pointers, which has no defined behaviour outside the buffer; the model reads
    with \<open>!\<close>. A loop over a count \<open>n\<close> of the library runs \<open>nat n\<close> times: the counts
    are never negative, and with a negative count of triangles or corners the loop of the
    source, which counts in \<open>size_t\<close>, leaves the buffer.
  \<^item> The collaborators whose code is not part of this file (the elevation provider,
    \<open>NoiseUtils::perlin2D\<close>, \<open>GradientUtils::getColor\<close>, the gradient, the texture
    region and the library function \<open>triangulate\<close>) are parameters.
\<close>

type_synonym double = real

subsection \<open>Data model\<close>

text \<open>The fields of \<open>Vector2\<close> and \<open>Vector3\<close> are \<open>x\<close>, \<open>y\<close> (and \<open>z\<close>) in the source.\<close>

datatype Vector2 = Vector2 (x2: double) (y2: double)

datatype Vector3 = Vector3 (x3: double) (y3: double) (z3: double)

text \<open>
  Modelled from the spec: the declarations of \<open>Mesh\<close>, \<open>Polygon\<close>,
  \<open>GeometryOptions\<close>, \<open>AppearanceOptions\<close>, the texture region, \<open>BoundingBox\<close> and
  the geographic coordinate are in headers outside the source file. The fields are
  those the source file uses, with the types it uses them at and that the data model of
  the specification gives: coordinates and uvs are \<open>double\<close>, colours and triangle
  indices are \<open>int\<close>, the gradient is a function from \<open>double\<close> to a colour. The
  method \<open>map\<close> of the texture region is the field \<open>map_region\<close>.
\<close>

record Mesh =
  vertices :: "double list"
  triangles :: "int list"
  colors :: "int list"
  uvs :: "double list"

record Polygon =
  points :: "double list"
  holes :: "double list"
  segments :: "int list"

record GeometryOptions =
  area :: double
  segmentSplit :: int
  elevation :: double
  eleNoiseFreq :: double
  heightOffset :: double
  flipSide :: bool
  hasBackSide :: bool

record TextureRegion =
  isEmpty :: bool
  map_region :: "Vector2 \<Rightarrow> Vector2"

record AppearanceOptions =
  gradient :: "double \<Rightarrow> int"
  colorNoiseFreq :: double
  textureRegion :: TextureRegion
  textureScale :: double

record GeoCoordinate =
  latitude :: double
  longitude :: double

record BoundingBox =
  minPoint :: GeoCoordinate
  maxPoint :: GeoCoordinate

text \<open>
  The builder object (\<open>bbox\<close>, \<open>eleProvider_\<close>) together with the static utility
  functions it calls.
\<close>

record MeshBuilderImpl =
  bbox :: BoundingBox
  getElevation :: "double \<Rightarrow> double \<Rightarrow> double"
  perlin2D :: "double \<Rightarrow> double \<Rightarrow> double \<Rightarrow> double"
  getColor :: "(double \<Rightarrow> int) \<Rightarrow> double \<Rightarrow> double \<Rightarrow> double \<Rightarrow> int"

text \<open>
  Modelled from the spec: \<open>triangulateio\<close> is declared in the header of the
  triangulation library. These are the fields that the source file sets or reads.
\<close>

record triangulateio =
  pointlist :: "double list"
  pointmarkerlist :: "int list option"
  numberofpoints :: int
  numberofpointattributes :: int
  trianglelist :: "int list"
  trianglearealist :: "double list option"
  numberoftriangles :: int
  numberofcorners :: int
  segmentlist :: "int list"
  segmentmarkerlist :: "int list option"
  numberofsegments :: int
  holelist :: "double list"
  numberofholes :: int
  numberofregions :: int

text \<open>
  The library function \<open>triangulate(switches, in, out, vorout)\<close>: the source hands it
  an output structure whose buffer pointers are \<open>nullptr\<close>, so that the library
  allocates them; what it returns is a function of the switches and the input.
\<close>

type_synonym triangulate_fn = "string \<Rightarrow> triangulateio \<Rightarrow> triangulateio"

text \<open>One call of the library: the switches, the input and the output.\<close>

type_synonym triangulate_call = "string \<times> triangulateio \<times> triangulateio"

text \<open>
  \<open>std::numeric_limits<double>::epsilon()\<close> and \<open>lowest()\<close>, for the 64-bit binary
  floating point format.
\<close>

definition numeric_limits_epsilon :: double where
  "numeric_limits_epsilon = 1 / 2 ^ 52"

definition numeric_limits_lowest :: double where
  "numeric_limits_lowest = - ((2 - 1 / 2 ^ 52) * 2 ^ 1023)"

subsection \<open>addVertex\<close>

definition addVertex :: "Mesh \<Rightarrow> Vector2 \<Rightarrow> double \<Rightarrow> int \<Rightarrow> int \<Rightarrow> Mesh" where
  "addVertex mesh p ele color triIndex =
     (let mesh = mesh\<lparr>vertices := vertices mesh @ [x2 p]\<rparr>;
          mesh = mesh\<lparr>vertices := vertices mesh @ [y2 p]\<rparr>;
          mesh = mesh\<lparr>vertices := vertices mesh @ [ele]\<rparr>;
          mesh = mesh\<lparr>colors := colors mesh @ [color]\<rparr>;
          mesh = mesh\<lparr>uvs := uvs mesh @ [0]\<rparr>;
          mesh = mesh\<lparr>uvs := uvs mesh @ [0]\<rparr>
      in mesh\<lparr>triangles := triangles mesh @ [triIndex]\<rparr>)"

text \<open>The overload of \<open>addVertex\<close> for a \<open>Vector3\<close>.\<close>

definition addVertex3 :: "Mesh \<Rightarrow> Vector3 \<Rightarrow> int \<Rightarrow> int \<Rightarrow> Mesh" where
  "addVertex3 mesh vertex color triIndex =
     addVertex mesh (Vector2 (x3 vertex) (z3 vertex)) (y3 vertex) color triIndex"

subsection \<open>addPlane\<close>

text \<open>The overload with explicit elevations.\<close>

definition addPlane ::
  "MeshBuilderImpl \<Rightarrow> Mesh \<Rightarrow> Vector2 \<Rightarrow> Vector2 \<Rightarrow> double \<Rightarrow> double \<Rightarrow>
   GeometryOptions \<Rightarrow> AppearanceOptions \<Rightarrow> Mesh" where
  "addPlane b mesh p1 p2 ele1 ele2 geometryOptions appearanceOptions =
     (let color = gradient appearanceOptions
            ((perlin2D b (x2 p1) (y2 p1) (colorNoiseFreq appearanceOptions) + 1) / 2);
          index = int (length (vertices mesh) div 3);
          mesh = addVertex mesh p1 ele1 color index;
          mesh = addVertex mesh p2 ele2 color (index + 2);
          mesh = addVertex mesh p2 (ele2 + heightOffset geometryOptions) color (index + 1);
          index = index + 3;
          mesh = addVertex mesh p1 (ele1 + heightOffset geometryOptions) color index;
          mesh = addVertex mesh p1 ele1 color (index + 2)
      in addVertex mesh p2 (ele2 + heightOffset geometryOptions) color (index + 1))"

text \<open>The overload that samples the elevations.\<close>

definition addPlaneSampled ::
  "MeshBuilderImpl \<Rightarrow> Mesh \<Rightarrow> Vector2 \<Rightarrow> Vector2 \<Rightarrow>
   GeometryOptions \<Rightarrow> AppearanceOptions \<Rightarrow> Mesh" where
  "addPlaneSampled b mesh p1 p2 geometryOptions appearanceOptions =
     (let ele1 = getElevation b (y2 p1) (x2 p1);
          ele2 = getElevation b (y2 p2) (x2 p2);
          ele1 = ele1 + perlin2D b (x2 p1) (y2 p1) (eleNoiseFreq geometryOptions);
          ele2 = ele2 + perlin2D b (x2 p2) (y2 p2) (eleNoiseFreq geometryOptions)
      in addPlane b mesh p1 p2 ele1 ele2 geometryOptions appearanceOptions)"

subsection \<open>addTriangle\<close>

text \<open>\<open>++startIndex\<close> increments the index and passes the incremented value.\<close>

definition addTriangle ::
  "MeshBuilderImpl \<Rightarrow> Mesh \<Rightarrow> Vector3 \<Rightarrow> Vector3 \<Rightarrow> Vector3 \<Rightarrow>
   GeometryOptions \<Rightarrow> AppearanceOptions \<Rightarrow> Mesh" where
  "addTriangle b mesh v0 v1 v2 geometryOptions apperanceOptions =
     (let color = gradient apperanceOptions
            ((perlin2D b (x3 v0) (z3 v0) (colorNoiseFreq apperanceOptions) + 1) / 2);
          startIndex = int (length (vertices mesh) div 3);
          mesh = addVertex3 mesh v0 color startIndex;
          startIndex = startIndex + 1;
          mesh = addVertex3 mesh v1 color startIndex;
          startIndex = startIndex + 1;
          mesh = addVertex3 mesh v2 color startIndex
      in if hasBackSide geometryOptions
         then (let mesh = addVertex3 mesh v2 color startIndex;
                   startIndex = startIndex + 1;
                   mesh = addVertex3 mesh v1 color startIndex;
                   startIndex = startIndex + 1
               in addVertex3 mesh v0 color startIndex)
         else mesh)"

subsection \<open>fillMesh\<close>

text \<open>\<open>createMapFunc\<close> returns the closure that maps a point to its texture coordinate.\<close>

definition createMapFunc ::
  "MeshBuilderImpl \<Rightarrow> AppearanceOptions \<Rightarrow> double \<Rightarrow> double \<Rightarrow> Vector2" where
  "createMapFunc b appearanceOptions =
     (if isEmpty (textureRegion appearanceOptions) then (\<lambda>x y. Vector2 0 0)
      else
        (let geoHeight = latitude (maxPoint (bbox b)) - latitude (minPoint (bbox b));
             geoWidth = longitude (maxPoint (bbox b)) - longitude (minPoint (bbox b));
             geoX = longitude (minPoint (bbox b));
             geoY = latitude (minPoint (bbox b));
             region = textureRegion appearanceOptions;
             scale = textureScale appearanceOptions
         in (\<lambda>x y.
               let relX = (x - geoX) / geoWidth * scale;
                   relY = (y - geoY) / geoHeight * scale
               in map_region region (Vector2 relX relY))))"

text \<open>\<open>reserve\<close> changes the capacity of a vector, never its contents.\<close>

definition ensureMeshCapacity :: "Mesh \<Rightarrow> nat \<Rightarrow> nat \<Rightarrow> Mesh" where
  "ensureMeshCapacity mesh pointCount triCount = mesh"

text \<open>The body of the loop over the points, at index \<open>i\<close>.\<close>

definition fillPoint ::
  "MeshBuilderImpl \<Rightarrow> triangulateio \<Rightarrow> GeometryOptions \<Rightarrow> AppearanceOptions \<Rightarrow>
   nat \<Rightarrow> Mesh \<Rightarrow> Mesh" where
  "fillPoint b io geometryOptions appearanceOptions i mesh =
     (let x = pointlist io ! (i * 2 + 0);
          y = pointlist io ! (i * 2 + 1);
          ele = heightOffset geometryOptions +
                (if elevation geometryOptions > numeric_limits_lowest
                 then elevation geometryOptions
                 else getElevation b y x);
          ele = (case pointmarkerlist io of
                   None \<Rightarrow> ele
                 | Some markers \<Rightarrow>
                     if markers ! i \<noteq> 1
                     then ele + perlin2D b x y (eleNoiseFreq geometryOptions)
                     else ele);
          mesh = mesh\<lparr>vertices := vertices mesh @ [x]\<rparr>;
          mesh = mesh\<lparr>vertices := vertices mesh @ [y]\<rparr>;
          mesh = mesh\<lparr>vertices := vertices mesh @ [ele]\<rparr>;
          color = getColor b (gradient appearanceOptions) x y (colorNoiseFreq appearanceOptions);
          mesh = mesh\<lparr>colors := colors mesh @ [color]\<rparr>;
          uv = createMapFunc b appearanceOptions x y;
          mesh = mesh\<lparr>uvs := uvs mesh @ [x2 uv]\<rparr>
      in mesh\<lparr>uvs := uvs mesh @ [y2 uv]\<rparr>)"

text \<open>The mesh after the first \<open>n\<close> rounds of the loop over the points.\<close>

primrec fillPoints ::
  "MeshBuilderImpl \<Rightarrow> triangulateio \<Rightarrow> GeometryOptions \<Rightarrow> AppearanceOptions \<Rightarrow>
   nat \<Rightarrow> Mesh \<Rightarrow> Mesh" where
  "fillPoints b io geometryOptions appearanceOptions 0 mesh = mesh"
| "fillPoints b io geometryOptions appearanceOptions (Suc n) mesh =
     fillPoint b io geometryOptions appearanceOptions n
       (fillPoints b io geometryOptions appearanceOptions n mesh)"

text \<open>The body of the loop over the triangles, at index \<open>i\<close>.\<close>

definition fillTriangle ::
  "triangulateio \<Rightarrow> int \<Rightarrow> nat \<Rightarrow> nat \<Rightarrow> nat \<Rightarrow> nat \<Rightarrow> Mesh \<Rightarrow> Mesh" where
  "fillTriangle io triStartIndex first second third i mesh =
     (let mesh = mesh\<lparr>triangles := triangles mesh @
                   [triStartIndex + trianglelist io ! (i * nat (numberofcorners io) + first)]\<rparr>;
          mesh = mesh\<lparr>triangles := triangles mesh @
                   [triStartIndex + trianglelist io ! (i * nat (numberofcorners io) + second)]\<rparr>
      in mesh\<lparr>triangles := triangles mesh @
                   [triStartIndex + trianglelist io ! (i * nat (numberofcorners io) + third)]\<rparr>)"

text \<open>The mesh after the first \<open>n\<close> rounds of the loop over the triangles.\<close>

primrec fillTriangles ::
  "triangulateio \<Rightarrow> int \<Rightarrow> nat \<Rightarrow> nat \<Rightarrow> nat \<Rightarrow> nat \<Rightarrow> Mesh \<Rightarrow> Mesh" where
  "fillTriangles io triStartIndex first second third 0 mesh = mesh"
| "fillTriangles io triStartIndex first second third (Suc n) mesh =
     fillTriangle io triStartIndex first second third n
       (fillTriangles io triStartIndex first second third n mesh)"

definition fillMesh ::
  "MeshBuilderImpl \<Rightarrow> triangulateio \<Rightarrow> Mesh \<Rightarrow> GeometryOptions \<Rightarrow> AppearanceOptions \<Rightarrow>
   Mesh" where
  "fillMesh b io mesh geometryOptions appearanceOptions =
     (let triStartIndex = int (length (vertices mesh) div 3);
          mesh = ensureMeshCapacity mesh (nat (numberofpoints io)) (nat (numberoftriangles io));
          mesh = fillPoints b io geometryOptions appearanceOptions
                   (nat (numberofpoints io)) mesh;
          first = (if flipSide geometryOptions then 2 else 1);
          second = 0;
          third = (if flipSide geometryOptions then 1 else 2)
      in fillTriangles io triStartIndex first second third
           (nat (numberoftriangles io)) mesh)"

subsection \<open>addPolygon\<close>

text \<open>
  The input of the first pass. The source leaves the triangle fields of \<open>in\<close> unset;
  the library does not read them under the switches \<open>pzBQ\<close>, and the model gives
  them the empty value.
\<close>

definition polygon_input :: "Polygon \<Rightarrow> triangulateio" where
  "polygon_input polygon =
     \<lparr> pointlist = points polygon,
       pointmarkerlist = None,
       numberofpoints = int (length (points polygon) div 2),
       numberofpointattributes = 0,
       trianglelist = [],
       trianglearealist = None,
       numberoftriangles = 0,
       numberofcorners = 0,
       segmentlist = segments polygon,
       segmentmarkerlist = None,
       numberofsegments = int (length (segments polygon) div 2),
       holelist = holes polygon,
       numberofholes = int (length (holes polygon) div 2),
       numberofregions = 0 \<rparr>"

text \<open>
  \<open>addPolygon\<close> returns the mesh together with the calls of \<open>triangulate\<close> it made,
  in order. The buffers it frees at the end are local to the call.
\<close>

definition addPolygon ::
  "MeshBuilderImpl \<Rightarrow> triangulate_fn \<Rightarrow> Mesh \<Rightarrow> Polygon \<Rightarrow>
   GeometryOptions \<Rightarrow> AppearanceOptions \<Rightarrow> Mesh \<times> triangulate_call list" where
  "addPolygon b triangulate mesh polygon geometryOptions appearanceOptions =
     (let in_io = polygon_input polygon;
          mid = triangulate ''pzBQ'' in_io
      in if \<bar>area geometryOptions\<bar> < numeric_limits_epsilon
         then (fillMesh b mid mesh geometryOptions appearanceOptions,
               [(''pzBQ'', in_io, mid)])
         else
           (let mid_area = mid\<lparr>trianglearealist :=
                     Some (replicate (nat (numberoftriangles mid)) (area geometryOptions))\<rparr>;
                triOptions = ''prazPQ'' @ replicate (nat (segmentSplit geometryOptions)) CHR ''Y'';
                out = triangulate triOptions mid_area
            in (fillMesh b out mesh geometryOptions appearanceOptions,
                [(''pzBQ'', in_io, mid), (triOptions, mid_area, out)])))"

subsection \<open>Notions used to state the properties\<close>

text \<open>
  The Mesh invariant of the data model: one colour and one uv pair for every three
  vertex coordinates, and every triangle index denotes a vertex of the mesh.
\<close>

definition mesh_invariant :: "Mesh \<Rightarrow> bool" where
  "mesh_invariant mesh \<longleftrightarrow>
     length (vertices mesh) = length (colors mesh) * 3 \<and>
     length (colors mesh) * 3 = length (uvs mesh) * 3 div 2 \<and>
     (\<forall>t \<in> set (triangles mesh). 0 \<le> t \<and> t < int (length (vertices mesh) div 3))"

text \<open>
  Mesh \<open>mesh'\<close> extends \<open>mesh\<close>: every buffer of \<open>mesh\<close> is an initial part of the
  same buffer of \<open>mesh'\<close>.
\<close>

definition mesh_extends :: "Mesh \<Rightarrow> Mesh \<Rightarrow> bool" where
  "mesh_extends mesh mesh' \<longleftrightarrow>
     take (length (vertices mesh)) (vertices mesh') = vertices mesh \<and>
     length (vertices mesh) \<le> length (vertices mesh') \<and>
     take (length (triangles mesh)) (triangles mesh') = triangles mesh \<and>
     length (triangles mesh) \<le> length (triangles mesh') \<and>
     take (length (colors mesh)) (colors mesh') = colors mesh \<and>
     length (colors mesh) \<le> length (colors mesh') \<and>
     take (length (uvs mesh)) (uvs mesh') = uvs mesh \<and>
     length (uvs mesh) \<le> length (uvs mesh')"

text \<open>The triangulation that \<open>addPolygon\<close> hands to \<open>fillMesh\<close>: the output of its last call.\<close>

definition used_triangulation :: "triangulate_call list \<Rightarrow> triangulateio" where
  "used_triangulation calls = snd (snd (last calls))"

text \<open>Point \<open>i\<close> of a triangulation carries the boundary marker 1.\<close>

definition marked_boundary :: "triangulateio \<Rightarrow> nat \<Rightarrow> bool" where
  "marked_boundary io i =
     (case pointmarkerlist io of None \<Rightarrow> False | Some markers \<Rightarrow> markers ! i = 1)"

text \<open>
  The first three corners of every triangle of a triangulation are indices of its
  own points.
\<close>

definition corners_in_range :: "triangulateio \<Rightarrow> bool" where
  "corners_in_range io \<longleftrightarrow>
     (\<forall>i \<in> {0..<nat (numberoftriangles io)}. \<forall>k \<in> {0, 1, 2}.
        0 \<le> trianglelist io ! (i * nat (numberofcorners io) + k) \<and>
        trianglelist io ! (i * nat (numberofcorners io) + k) < numberofpoints io)"

text \<open>The coordinates of vertex \<open>k\<close> of a mesh.\<close>

definition vertex_at :: "Mesh \<Rightarrow> nat \<Rightarrow> double \<times> double \<times> double" where
  "vertex_at mesh k =
     (vertices mesh ! (3 * k), vertices mesh ! (3 * k + 1), vertices mesh ! (3 * k + 2))"

subsection \<open>Concrete inputs\<close>

definition ex_builder :: MeshBuilderImpl where
  "ex_builder =
     \<lparr> bbox = \<lparr> minPoint = \<lparr> latitude = 0, longitude = 0 \<rparr>,
                maxPoint = \<lparr> latitude = 2, longitude = 4 \<rparr> \<rparr>,
       getElevation = (\<lambda>lat lon. 10),
       perlin2D = (\<lambda>x y freq. freq),
       getColor = (\<lambda>g x y freq. g ((freq + 1) / 2)) \<rparr>"

definition ex_gradient :: "double \<Rightarrow> int" where
  "ex_gradient t = (if t < 3 / 4 then 7 else 9)"

definition ex_appearance :: AppearanceOptions where
  "ex_appearance =
     \<lparr> gradient = ex_gradient, colorNoiseFreq = 0,
       textureRegion = \<lparr> isEmpty = True, map_region = (\<lambda>v. v) \<rparr>,
       textureScale = 1 \<rparr>"

definition ex_textured :: AppearanceOptions where
  "ex_textured =
     \<lparr> gradient = ex_gradient, colorNoiseFreq = 0,
       textureRegion = \<lparr> isEmpty = False, map_region = (\<lambda>v. v) \<rparr>,
       textureScale = 1 \<rparr>"

definition ex_geometry :: GeometryOptions where
  "ex_geometry =
     \<lparr> area = 0, segmentSplit = 2, elevation = numeric_limits_lowest,
       eleNoiseFreq = 1 / 2, heightOffset = 3, flipSide = False, hasBackSide = True \<rparr>"

definition ex_square :: Polygon where
  "ex_square = \<lparr> points = [0, 0, 1, 0, 1, 1, 0, 1], holes = [], segments = [] \<rparr>"

text \<open>
  The unit square cut into two triangles, without point markers: for the first pass the
  source sets \<open>mid.pointmarkerlist\<close> to \<open>nullptr\<close> and passes the switch \<open>B\<close>, which
  asks the library for no boundary markers in its output.
\<close>

definition ex_conforming :: triangulateio where
  "ex_conforming =
     \<lparr> pointlist = [0, 0, 1, 0, 1, 1, 0, 1],
       pointmarkerlist = None,
       numberofpoints = 4,
       numberofpointattributes = 0,
       trianglelist = [0, 1, 2, 0, 2, 3],
       trianglearealist = None,
       numberoftriangles = 2,
       numberofcorners = 3,
       segmentlist = [],
       segmentmarkerlist = None,
       numberofsegments = 0,
       holelist = [],
       numberofholes = 0,
       numberofregions = 0 \<rparr>"

text \<open>The unit square refined by its centre, the four corners marked as boundary.\<close>

definition ex_refined :: triangulateio where
  "ex_refined =
     \<lparr> pointlist = [0, 0, 1, 0, 1, 1, 0, 1, 1 / 2, 1 / 2],
       pointmarkerlist = Some [1, 1, 1, 1, 0],
       numberofpoints = 5,
       numberofpointattributes = 0,
       trianglelist = [0, 1, 4, 1, 2, 4, 2, 3, 4, 3, 0, 4],
       trianglearealist = None,
       numberoftriangles = 4,
       numberofcorners = 3,
       segmentlist = [],
       segmentmarkerlist = None,
       numberofsegments = 0,
       holelist = [],
       numberofholes = 0,
       numberofregions = 0 \<rparr>"

definition ex_triangulate :: triangulate_fn where
  "ex_triangulate switches io = (if switches = ''pzBQ'' then ex_conforming else ex_refined)"

text \<open>A mesh that already holds one triangle.\<close>

definition ex_mesh :: Mesh where
  "ex_mesh =
     \<lparr> vertices = [0, 0, 0, 1, 0, 0, 0, 1, 0], triangles = [0, 1, 2],
       colors = [7, 7, 7], uvs = [0, 0, 0, 0, 0, 0] \<rparr>"

definition ex_empty :: Mesh where
  "ex_empty = \<lparr> vertices = [], triangles = [], colors = [], uvs = [] \<rparr>"

section \<open>Auxiliary facts\<close>

lemma addVertex_vertices: "vertices (addVertex mesh p ele color triIndex) = vertices mesh @ [x2 p, y2 p, ele]"
  by (simp add: addVertex_def Let_def)
lemma addVertex_colors: "colors (addVertex mesh p ele color triIndex) = colors mesh @ [color]"
  by (simp add: addVertex_def Let_def)
lemma addVertex_uvs: "uvs (addVertex mesh p ele color triIndex) = uvs mesh @ [0, 0]"
  by (simp add: addVertex_def Let_def)
lemma addVertex_triangles: "triangles (addVertex mesh p ele color triIndex) = triangles mesh @ [triIndex]"
  by (simp add: addVertex_def Let_def)

lemmas addVertex_simps = addVertex_vertices addVertex_colors addVertex_uvs addVertex_triangles

lemma addPlane_vertices:
  "vertices (addPlane b mesh p1 p2 ele1 ele2 geo app) = vertices mesh @
     [x2 p1, y2 p1, ele1, x2 p2, y2 p2, ele2, x2 p2, y2 p2, ele2 + heightOffset geo,
      x2 p1, y2 p1, ele1 + heightOffset geo, x2 p1, y2 p1, ele1, x2 p2, y2 p2, ele2 + heightOffset geo]"
  unfolding addPlane_def Let_def by (simp only: addVertex_simps append_assoc append.simps)

lemma addPlane_colors:
  "colors (addPlane b mesh p1 p2 ele1 ele2 geo app) = colors mesh @
     (let c = gradient app ((perlin2D b (x2 p1) (y2 p1) (colorNoiseFreq app) + 1) / 2)
      in [c, c, c, c, c, c])"
  unfolding addPlane_def Let_def by (simp only: addVertex_simps append_assoc append.simps)

lemma addPlane_uvs:
  "uvs (addPlane b mesh p1 p2 ele1 ele2 geo app) = uvs mesh @ [0, 0, 0, 0, 0, 0, 0, 0, 0, 0, 0, 0]"
  unfolding addPlane_def Let_def by (simp only: addVertex_simps append_assoc append.simps)

lemma addPlane_triangles:
  "triangles (addPlane b mesh p1 p2 ele1 ele2 geo app) = triangles mesh @
     (let n = int (length (vertices mesh) div 3) in [n, n + 2, n + 1, n + 3, n + 3 + 2, n + 3 + 1])"
  unfolding addPlane_def Let_def by (simp only: addVertex_simps append_assoc append.simps)

lemma addTriangle_vertices:
  "vertices (addTriangle b mesh v0 v1 v2 geo app) = vertices mesh @
     [x3 v0, z3 v0, y3 v0, x3 v1, z3 v1, y3 v1, x3 v2, z3 v2, y3 v2] @
     (if hasBackSide geo then [x3 v2, z3 v2, y3 v2, x3 v1, z3 v1, y3 v1, x3 v0, z3 v0, y3 v0] else [])"
  unfolding addTriangle_def addVertex3_def Let_def
  by (cases "hasBackSide geo")
     (simp_all only: addVertex_simps append_assoc append.simps Vector2.sel if_True if_False)

lemma addTriangle_colors:
  "colors (addTriangle b mesh v0 v1 v2 geo app) = colors mesh @
     (let c = gradient app ((perlin2D b (x3 v0) (z3 v0) (colorNoiseFreq app) + 1) / 2)
      in if hasBackSide geo then [c, c, c, c, c, c] else [c, c, c])"
  unfolding addTriangle_def addVertex3_def Let_def
  by (cases "hasBackSide geo")
     (simp_all only: addVertex_simps append_assoc append.simps Vector2.sel if_True if_False)

lemma addTriangle_uvs:
  "uvs (addTriangle b mesh v0 v1 v2 geo app) = uvs mesh @
     (if hasBackSide geo then [0, 0, 0, 0, 0, 0, 0, 0, 0, 0, 0, 0] else [0, 0, 0, 0, 0, 0])"
  unfolding addTriangle_def addVertex3_def Let_def
  by (cases "hasBackSide geo")
     (simp_all only: addVertex_simps append_assoc append.simps Vector2.sel if_True if_False)

lemma addTriangle_triangles:
  "triangles (addTriangle b mesh v0 v1 v2 geo app) = triangles mesh @
     (let n = int (length (vertices mesh) div 3)
      in if hasBackSide geo then [n, n + 1, n + 1 + 1, n + 1 + 1, n + 1 + 1 + 1, n + 1 + 1 + 1 + 1]
         else [n, n + 1, n + 1 + 1])"
  unfolding addTriangle_def addVertex3_def Let_def
  by (cases "hasBackSide geo")
     (simp_all only: addVertex_simps append_assoc append.simps Vector2.sel if_True if_False)

lemma concat_upt_Suc: "concat (map f [0..<Suc n]) = concat (map f [0..<n]) @ f n"
  by simp

lemma length_concat_upt:
  assumes "\<And>j. length (f j) = c"
  shows "length (concat (map f [0..<n])) = c * n"
  using assms by (induction n) simp_all

lemma nth_concat_upt:
  assumes len: "\<And>j. length (f j) = c" and "i < n" and "k < c"
  shows "concat (map f [0..<n]) ! (c * i + k) = f i ! k"
  using \<open>i < n\<close>
proof (induction n)
  case 0
  then show ?case by simp
next
  case (Suc n)
  have L: "length (concat (map f [0..<n])) = c * n"
    using len by (rule length_concat_upt)
  show ?case
  proof (cases "i < n")
    case True
    then have "c * i + k < c * n"
    proof -
      from True have "Suc i \<le> n" by simp
      then have "c * Suc i \<le> c * n" by (rule mult_le_mono2)
      with \<open>k < c\<close> show ?thesis by simp
    qed
    then show ?thesis
      using Suc.IH [OF True] L by (simp add: nth_append)
  next
    case False
    with Suc.prems have "i = n" by simp
    then show ?thesis
      using L by (simp add: nth_append)
  qed
qed

lemma fillPoint_vertices:
  "vertices (fillPoint b io geo app i mesh) = vertices mesh @
     [pointlist io ! (i * 2 + 0), pointlist io ! (i * 2 + 1),
      (case pointmarkerlist io of
         None \<Rightarrow> heightOffset geo +
                 (if elevation geo > numeric_limits_lowest then elevation geo
                  else getElevation b (pointlist io ! (i * 2 + 1)) (pointlist io ! (i * 2 + 0)))
       | Some markers \<Rightarrow>
           if markers ! i \<noteq> 1
           then heightOffset geo +
                 (if elevation geo > numeric_limits_lowest then elevation geo
                  else getElevation b (pointlist io ! (i * 2 + 1)) (pointlist io ! (i * 2 + 0))) +
                perlin2D b (pointlist io ! (i * 2 + 0)) (pointlist io ! (i * 2 + 1)) (eleNoiseFreq geo)
           else heightOffset geo +
                 (if elevation geo > numeric_limits_lowest then elevation geo
                  else getElevation b (pointlist io ! (i * 2 + 1)) (pointlist io ! (i * 2 + 0))))]"
  unfolding fillPoint_def Let_def by simp

lemma fillPoint_colors:
  "colors (fillPoint b io geo app i mesh) = colors mesh @
     [getColor b (gradient app) (pointlist io ! (i * 2 + 0)) (pointlist io ! (i * 2 + 1))
        (colorNoiseFreq app)]"
  unfolding fillPoint_def Let_def by simp

lemma fillPoint_uvs:
  "uvs (fillPoint b io geo app i mesh) = uvs mesh @
     [x2 (createMapFunc b app (pointlist io ! (i * 2 + 0)) (pointlist io ! (i * 2 + 1))),
      y2 (createMapFunc b app (pointlist io ! (i * 2 + 0)) (pointlist io ! (i * 2 + 1)))]"
  unfolding fillPoint_def Let_def by simp

lemma fillPoint_triangles: "triangles (fillPoint b io geo app i mesh) = triangles mesh"
  unfolding fillPoint_def Let_def by simp

lemma fillPoints_vertices:
  "vertices (fillPoints b io geo app n mesh) = vertices mesh @
     concat (map (\<lambda>i.
       [pointlist io ! (i * 2 + 0), pointlist io ! (i * 2 + 1),
        (case pointmarkerlist io of
           None \<Rightarrow> heightOffset geo +
                   (if elevation geo > numeric_limits_lowest then elevation geo
                    else getElevation b (pointlist io ! (i * 2 + 1)) (pointlist io ! (i * 2 + 0)))
         | Some markers \<Rightarrow>
             if markers ! i \<noteq> 1
             then heightOffset geo +
                   (if elevation geo > numeric_limits_lowest then elevation geo
                    else getElevation b (pointlist io ! (i * 2 + 1)) (pointlist io ! (i * 2 + 0))) +
                  perlin2D b (pointlist io ! (i * 2 + 0)) (pointlist io ! (i * 2 + 1))
                    (eleNoiseFreq geo)
             else heightOffset geo +
                   (if elevation geo > numeric_limits_lowest then elevation geo
                    else getElevation b (pointlist io ! (i * 2 + 1)) (pointlist io ! (i * 2 + 0))))])
       [0..<n])"
  by (induction n) (simp_all add: fillPoint_vertices)

lemma fillPoints_colors:
  "colors (fillPoints b io geo app n mesh) = colors mesh @
     map (\<lambda>i. getColor b (gradient app) (pointlist io ! (i * 2 + 0)) (pointlist io ! (i * 2 + 1))
            (colorNoiseFreq app)) [0..<n]"
  by (induction n) (simp_all add: fillPoint_colors)

lemma fillPoints_uvs:
  "uvs (fillPoints b io geo app n mesh) = uvs mesh @
     concat (map (\<lambda>i.
       [x2 (createMapFunc b app (pointlist io ! (i * 2 + 0)) (pointlist io ! (i * 2 + 1))),
        y2 (createMapFunc b app (pointlist io ! (i * 2 + 0)) (pointlist io ! (i * 2 + 1)))])
       [0..<n])"
  by (induction n) (simp_all add: fillPoint_uvs)

lemma fillPoints_triangles: "triangles (fillPoints b io geo app n mesh) = triangles mesh"
  by (induction n) (simp_all add: fillPoint_triangles)

lemma fillTriangle_triangles:
  "triangles (fillTriangle io s first second third i mesh) = triangles mesh @
     [s + trianglelist io ! (i * nat (numberofcorners io) + first),
      s + trianglelist io ! (i * nat (numberofcorners io) + second),
      s + trianglelist io ! (i * nat (numberofcorners io) + third)]"
  unfolding fillTriangle_def Let_def by simp

lemma fillTriangle_others:
  "vertices (fillTriangle io s first second third i mesh) = vertices mesh"
  "colors (fillTriangle io s first second third i mesh) = colors mesh"
  "uvs (fillTriangle io s first second third i mesh) = uvs mesh"
  unfolding fillTriangle_def Let_def by simp_all

lemma fillTriangles_triangles:
  "triangles (fillTriangles io s first second third n mesh) = triangles mesh @
     concat (map (\<lambda>i.
       [s + trianglelist io ! (i * nat (numberofcorners io) + first),
        s + trianglelist io ! (i * nat (numberofcorners io) + second),
        s + trianglelist io ! (i * nat (numberofcorners io) + third)]) [0..<n])"
  by (induction n) (simp_all add: fillTriangle_triangles)

lemma fillTriangles_others:
  "vertices (fillTriangles io s first second third n mesh) = vertices mesh"
  "colors (fillTriangles io s first second third n mesh) = colors mesh"
  "uvs (fillTriangles io s first second third n mesh) = uvs mesh"
  by (induction n) (simp_all add: fillTriangle_others)

lemma fillMesh_vertices:
  "vertices (fillMesh b io mesh geo app) = vertices mesh @
     concat (map (\<lambda>i.
       [pointlist io ! (i * 2 + 0), pointlist io ! (i * 2 + 1),
        (case pointmarkerlist io of
           None \<Rightarrow> heightOffset geo +
                   (if elevation geo > numeric_limits_lowest then elevation geo
                    else getElevation b (pointlist io ! (i * 2 + 1)) (pointlist io ! (i * 2 + 0)))
         | Some markers \<Rightarrow>
             if markers ! i \<noteq> 1
             then heightOffset geo +
                   (if elevation geo > numeric_limits_lowest then elevation geo
                    else getElevation b (pointlist io ! (i * 2 + 1)) (pointlist io ! (i * 2 + 0))) +
                  perlin2D b (pointlist io ! (i * 2 + 0)) (pointlist io ! (i * 2 + 1))
                    (eleNoiseFreq geo)
             else heightOffset geo +
                   (if elevation geo > numeric_limits_lowest then elevation geo
                    else getElevation b (pointlist io ! (i * 2 + 1)) (pointlist io ! (i * 2 + 0))))])
       [0..<nat (numberofpoints io)])"
  unfolding fillMesh_def Let_def ensureMeshCapacity_def
  by (simp only: fillTriangles_others fillPoints_vertices)

lemma fillMesh_colors:
  "colors (fillMesh b io mesh geo app) = colors mesh @
     map (\<lambda>i. getColor b (gradient app) (pointlist io ! (i * 2 + 0)) (pointlist io ! (i * 2 + 1))
            (colorNoiseFreq app)) [0..<nat (numberofpoints io)]"
  unfolding fillMesh_def Let_def ensureMeshCapacity_def
  by (simp only: fillTriangles_others fillPoints_colors)

lemma fillMesh_uvs:
  "uvs (fillMesh b io mesh geo app) = uvs mesh @
     concat (map (\<lambda>i.
       [x2 (createMapFunc b app (pointlist io ! (i * 2 + 0)) (pointlist io ! (i * 2 + 1))),
        y2 (createMapFunc b app (pointlist io ! (i * 2 + 0)) (pointlist io ! (i * 2 + 1)))])
       [0..<nat (numberofpoints io)])"
  unfolding fillMesh_def Let_def ensureMeshCapacity_def
  by (simp only: fillTriangles_others fillPoints_uvs)

lemma fillMesh_triangles:
  "triangles (fillMesh b io mesh geo app) = triangles mesh @
     concat (map (\<lambda>i.
       [int (length (vertices mesh) div 3) +
          trianglelist io ! (i * nat (numberofcorners io) + (if flipSide geo then 2 else 1)),
        int (length (vertices mesh) div 3) +
          trianglelist io ! (i * nat (numberofcorners io) + 0),
        int (length (vertices mesh) div 3) +
          trianglelist io ! (i * nat (numberofcorners io) + (if flipSide geo then 1 else 2))])
       [0..<nat (numberoftriangles io)])"
  unfolding fillMesh_def Let_def ensureMeshCapacity_def
  by (simp only: fillTriangles_triangles fillPoints_triangles)

lemma addPolygon_fillMesh:
  "fst (addPolygon b tri mesh polygon geo app) =
     fillMesh b (used_triangulation (snd (addPolygon b tri mesh polygon geo app))) mesh geo app"
  unfolding addPolygon_def Let_def used_triangulation_def by simp

lemma replicate_3: "replicate 3 c = [c, c, c]"
  by (simp add: numeral_eq_Suc)

lemma replicate_6: "replicate 6 c = [c, c, c, c, c, c]"
  by (simp add: numeral_eq_Suc)

lemma replicate_12: "replicate 12 c = [c, c, c, c, c, c, c, c, c, c, c, c]"
  by (simp add: numeral_eq_Suc)

lemma createMapFunc_empty:
  "isEmpty (textureRegion app) \<Longrightarrow> createMapFunc b app x y = Vector2 0 0"
  unfolding createMapFunc_def by simp

lemma concat_replicate_pair: "concat (map (\<lambda>i. [c, c]) [0..<n]) = replicate (2 * n) c"
proof (induction n)
  case 0
  show ?case by simp
next
  case (Suc n)
  have "replicate (2 * Suc n) c = replicate (2 * n) c @ replicate 2 c"
    by (simp add: replicate_add [symmetric])
  moreover have "replicate 2 c = [c, c]"
    by (simp add: numeral_2_eq_2)
  ultimately show ?case
    using Suc.IH by simp
qed

lemma mesh_invariant_append:
  assumes inv: "mesh_invariant mesh"
    and vs: "vertices mesh' = vertices mesh @ vs" "length vs = 3 * k"
    and cs: "colors mesh' = colors mesh @ cs" "length cs = k"
    and us: "uvs mesh' = uvs mesh @ us" "length us = 2 * k"
    and ts: "triangles mesh' = triangles mesh @ ts"
      "\<And>t. t \<in> set ts \<Longrightarrow> 0 \<le> t \<and> t < int (length (vertices mesh) div 3) + int k"
  shows "mesh_invariant mesh'"
proof -
  from inv have a: "length (vertices mesh) = length (colors mesh) * 3"
    and b: "length (colors mesh) * 3 = length (uvs mesh) * 3 div 2"
    and c: "\<And>t. t \<in> set (triangles mesh) \<Longrightarrow> 0 \<le> t \<and> t < int (length (vertices mesh) div 3)"
    unfolding mesh_invariant_def by auto
  have n: "length (vertices mesh') div 3 = length (vertices mesh) div 3 + k"
    using vs by simp
  have 1: "length (vertices mesh') = length (colors mesh') * 3"
    using a vs cs by simp
  have 2: "length (colors mesh') * 3 = length (uvs mesh') * 3 div 2"
    using b cs us by simp
  have 3: "0 \<le> t \<and> t < int (length (vertices mesh') div 3)" if "t \<in> set (triangles mesh')" for t
  proof -
    from that ts(1) have "t \<in> set (triangles mesh) \<or> t \<in> set ts" by simp
    then show ?thesis
    proof
      assume "t \<in> set (triangles mesh)"
      from c [OF this] show ?thesis unfolding n by simp
    next
      assume "t \<in> set ts"
      from ts(2) [OF this] show ?thesis unfolding n by simp
    qed
  qed
  from 1 2 3 show ?thesis
    unfolding mesh_invariant_def by blast
qed

lemma addPlane_invariant:
  assumes "mesh_invariant mesh"
  shows "mesh_invariant (addPlane b mesh p1 p2 ele1 ele2 geo app)"
proof (rule mesh_invariant_append [OF assms, where k = 6])
  show "vertices (addPlane b mesh p1 p2 ele1 ele2 geo app) = vertices mesh @
     [x2 p1, y2 p1, ele1, x2 p2, y2 p2, ele2, x2 p2, y2 p2, ele2 + heightOffset geo,
      x2 p1, y2 p1, ele1 + heightOffset geo, x2 p1, y2 p1, ele1, x2 p2, y2 p2, ele2 + heightOffset geo]"
    by (rule addPlane_vertices)
  show "colors (addPlane b mesh p1 p2 ele1 ele2 geo app) = colors mesh @
     (let c = gradient app ((perlin2D b (x2 p1) (y2 p1) (colorNoiseFreq app) + 1) / 2)
      in [c, c, c, c, c, c])"
    by (rule addPlane_colors)
  show "uvs (addPlane b mesh p1 p2 ele1 ele2 geo app) = uvs mesh @ [0, 0, 0, 0, 0, 0, 0, 0, 0, 0, 0, 0]"
    by (rule addPlane_uvs)
  show "triangles (addPlane b mesh p1 p2 ele1 ele2 geo app) = triangles mesh @
     (let n = int (length (vertices mesh) div 3) in [n, n + 2, n + 1, n + 3, n + 3 + 2, n + 3 + 1])"
    by (rule addPlane_triangles)
qed (auto simp: Let_def)

lemma addTriangle_invariant:
  assumes "mesh_invariant mesh"
  shows "mesh_invariant (addTriangle b mesh v0 v1 v2 geo app)"
proof (rule mesh_invariant_append [OF assms, where k = "if hasBackSide geo then 6 else 3"])
  show "vertices (addTriangle b mesh v0 v1 v2 geo app) = vertices mesh @
     [x3 v0, z3 v0, y3 v0, x3 v1, z3 v1, y3 v1, x3 v2, z3 v2, y3 v2] @
     (if hasBackSide geo then [x3 v2, z3 v2, y3 v2, x3 v1, z3 v1, y3 v1, x3 v0, z3 v0, y3 v0] else [])"
    by (rule addTriangle_vertices)
  show "colors (addTriangle b mesh v0 v1 v2 geo app) = colors mesh @
     (let c = gradient app ((perlin2D b (x3 v0) (z3 v0) (colorNoiseFreq app) + 1) / 2)
      in if hasBackSide geo then [c, c, c, c, c, c] else [c, c, c])"
    by (rule addTriangle_colors)
  show "uvs (addTriangle b mesh v0 v1 v2 geo app) = uvs mesh @
     (if hasBackSide geo then [0, 0, 0, 0, 0, 0, 0, 0, 0, 0, 0, 0] else [0, 0, 0, 0, 0, 0])"
    by (rule addTriangle_uvs)
  show "triangles (addTriangle b mesh v0 v1 v2 geo app) = triangles mesh @
     (let n = int (length (vertices mesh) div 3)
      in if hasBackSide geo then [n, n + 1, n + 1 + 1, n + 1 + 1, n + 1 + 1 + 1, n + 1 + 1 + 1 + 1]
         else [n, n + 1, n + 1 + 1])"
    by (rule addTriangle_triangles)
qed (auto simp: Let_def)

lemma fillMesh_invariant:
  assumes inv: "mesh_invariant mesh" and range: "corners_in_range io"
  shows "mesh_invariant (fillMesh b io mesh geo app)"
proof (rule mesh_invariant_append [OF inv, where k = "nat (numberofpoints io)"])
  show "vertices (fillMesh b io mesh geo app) = vertices mesh @
     concat (map (\<lambda>i.
       [pointlist io ! (i * 2 + 0), pointlist io ! (i * 2 + 1),
        (case pointmarkerlist io of
           None \<Rightarrow> heightOffset geo +
                   (if elevation geo > numeric_limits_lowest then elevation geo
                    else getElevation b (pointlist io ! (i * 2 + 1)) (pointlist io ! (i * 2 + 0)))
         | Some markers \<Rightarrow>
             if markers ! i \<noteq> 1
             then heightOffset geo +
                   (if elevation geo > numeric_limits_lowest then elevation geo
                    else getElevation b (pointlist io ! (i * 2 + 1)) (pointlist io ! (i * 2 + 0))) +
                  perlin2D b (pointlist io ! (i * 2 + 0)) (pointlist io ! (i * 2 + 1))
                    (eleNoiseFreq geo)
             else heightOffset geo +
                   (if elevation geo > numeric_limits_lowest then elevation geo
                    else getElevation b (pointlist io ! (i * 2 + 1)) (pointlist io ! (i * 2 + 0))))])
       [0..<nat (numberofpoints io)])"
    by (rule fillMesh_vertices)
  show "colors (fillMesh b io mesh geo app) = colors mesh @
     map (\<lambda>i. getColor b (gradient app) (pointlist io ! (i * 2 + 0)) (pointlist io ! (i * 2 + 1))
            (colorNoiseFreq app)) [0..<nat (numberofpoints io)]"
    by (rule fillMesh_colors)
  show "uvs (fillMesh b io mesh geo app) = uvs mesh @
     concat (map (\<lambda>i.
       [x2 (createMapFunc b app (pointlist io ! (i * 2 + 0)) (pointlist io ! (i * 2 + 1))),
        y2 (createMapFunc b app (pointlist io ! (i * 2 + 0)) (pointlist io ! (i * 2 + 1)))])
       [0..<nat (numberofpoints io)])"
    by (rule fillMesh_uvs)
  show "triangles (fillMesh b io mesh geo app) = triangles mesh @
     concat (map (\<lambda>i.
       [int (length (vertices mesh) div 3) +
          trianglelist io ! (i * nat (numberofcorners io) + (if flipSide geo then 2 else 1)),
        int (length (vertices mesh) div 3) +
          trianglelist io ! (i * nat (numberofcorners io) + 0),
        int (length (vertices mesh) div 3) +
          trianglelist io ! (i * nat (numberofcorners io) + (if flipSide geo then 1 else 2))])
       [0..<nat (numberoftriangles io)])"
    by (rule fillMesh_triangles)
next
  fix t
  assume "t \<in> set (concat (map (\<lambda>i.
       [int (length (vertices mesh) div 3) +
          trianglelist io ! (i * nat (numberofcorners io) + (if flipSide geo then 2 else 1)),
        int (length (vertices mesh) div 3) +
          trianglelist io ! (i * nat (numberofcorners io) + 0),
        int (length (vertices mesh) div 3) +
          trianglelist io ! (i * nat (numberofcorners io) + (if flipSide geo then 1 else 2))])
       [0..<nat (numberoftriangles io)]))"
  then obtain i where i: "i < nat (numberoftriangles io)"
    and t: "t \<in> set
       [int (length (vertices mesh) div 3) +
          trianglelist io ! (i * nat (numberofcorners io) + (if flipSide geo then 2 else 1)),
        int (length (vertices mesh) div 3) +
          trianglelist io ! (i * nat (numberofcorners io) + 0),
        int (length (vertices mesh) div 3) +
          trianglelist io ! (i * nat (numberofcorners io) + (if flipSide geo then 1 else 2))]"
    by auto
  have r: "0 \<le> trianglelist io ! (i * nat (numberofcorners io) + k) \<and>
      trianglelist io ! (i * nat (numberofcorners io) + k) < numberofpoints io"
    if "k \<in> {0, 1, 2}" for k
  proof -
    from i have "i \<in> {0..<nat (numberoftriangles io)}" by simp
    with range that show ?thesis
      unfolding corners_in_range_def by blast
  qed
  from t r [of 0] r [of 1] r [of 2]
  show "0 \<le> t \<and> t < int (length (vertices mesh) div 3) + int (nat (numberofpoints io))"
    by (cases "flipSide geo") auto
qed (simp_all add: length_concat_upt)

lemma fillMesh_triangle_at:
  assumes i: "i < nat (numberoftriangles io)" and k: "k < 3"
  shows "drop (length (triangles mesh)) (triangles (fillMesh b io mesh geo app)) ! (3 * i + k) =
     [int (length (vertices mesh) div 3) +
        trianglelist io ! (i * nat (numberofcorners io) + (if flipSide geo then 2 else 1)),
      int (length (vertices mesh) div 3) +
        trianglelist io ! (i * nat (numberofcorners io) + 0),
      int (length (vertices mesh) div 3) +
        trianglelist io ! (i * nat (numberofcorners io) + (if flipSide geo then 1 else 2))] ! k"
  unfolding fillMesh_triangles
  by (simp only: append_eq_conv_conj drop_append drop_all diff_self_eq_0 drop_0 append_Nil
        order_refl)
     (rule nth_concat_upt [OF _ i k], simp)

lemma fillMesh_vertex_at:
  assumes i: "i < nat (numberofpoints io)" and k: "k < 3"
  shows "drop (length (vertices mesh)) (vertices (fillMesh b io mesh geo app)) ! (3 * i + k) =
       [pointlist io ! (i * 2 + 0), pointlist io ! (i * 2 + 1),
        (case pointmarkerlist io of
           None \<Rightarrow> heightOffset geo +
                   (if elevation geo > numeric_limits_lowest then elevation geo
                    else getElevation b (pointlist io ! (i * 2 + 1)) (pointlist io ! (i * 2 + 0)))
         | Some markers \<Rightarrow>
             if markers ! i \<noteq> 1
             then heightOffset geo +
                   (if elevation geo > numeric_limits_lowest then elevation geo
                    else getElevation b (pointlist io ! (i * 2 + 1)) (pointlist io ! (i * 2 + 0))) +
                  perlin2D b (pointlist io ! (i * 2 + 0)) (pointlist io ! (i * 2 + 1))
                    (eleNoiseFreq geo)
             else heightOffset geo +
                   (if elevation geo > numeric_limits_lowest then elevation geo
                    else getElevation b (pointlist io ! (i * 2 + 1)) (pointlist io ! (i * 2 + 0))))] ! k"
  unfolding fillMesh_vertices
  by (simp only: append_eq_conv_conj drop_append drop_all diff_self_eq_0 drop_0 append_Nil
        order_refl)
     (rule nth_concat_upt [OF _ i k], simp)

lemma count_list_replicate_same: "count_list (replicate n c) c = n"
  by (induction n) simp_all

lemma fillMesh_uv_at:
  assumes i: "i < nat (numberofpoints io)" and k: "k < 2"
  shows "drop (length (uvs mesh)) (uvs (fillMesh b io mesh geo app)) ! (2 * i + k) =
       [x2 (createMapFunc b app (pointlist io ! (i * 2 + 0)) (pointlist io ! (i * 2 + 1))),
        y2 (createMapFunc b app (pointlist io ! (i * 2 + 0)) (pointlist io ! (i * 2 + 1)))] ! k"
  unfolding fillMesh_uvs
  by (simp only: append_eq_conv_conj drop_append drop_all diff_self_eq_0 drop_0 append_Nil
        order_refl)
     (rule nth_concat_upt [OF _ i k], simp)

subsection \<open>The concrete inputs\<close>

lemma ex_used_conforming:
  "used_triangulation (snd (addPolygon b ex_triangulate mesh polygon ex_geometry app)) =
     ex_conforming"
  unfolding addPolygon_def Let_def used_triangulation_def
  by (simp add: ex_geometry_def ex_triangulate_def numeric_limits_epsilon_def)

lemma ex_used_refined:
  "used_triangulation
     (snd (addPolygon b ex_triangulate mesh polygon (ex_geometry\<lparr>area := 1 / 10\<rparr>) app)) =
     ex_refined"
  unfolding addPolygon_def Let_def used_triangulation_def
  by (simp add: ex_geometry_def ex_triangulate_def numeric_limits_epsilon_def)

lemma ex_mesh_invariant: "mesh_invariant ex_mesh"
  by (simp add: mesh_invariant_def ex_mesh_def)

lemma ex_conforming_in_range: "corners_in_range ex_conforming"
  by code_simp

lemma ex_refined_in_range: "corners_in_range ex_refined"
  by code_simp

lemma ex_used_conforming_flipped:
  "used_triangulation
     (snd (addPolygon b ex_triangulate mesh polygon (ex_geometry\<lparr>flipSide := True\<rparr>) app)) =
     ex_conforming"
  unfolding addPolygon_def Let_def used_triangulation_def
  by (simp add: ex_geometry_def ex_triangulate_def numeric_limits_epsilon_def)

lemma numeric_limits_lowest_negative: "numeric_limits_lowest < 0"
  unfolding numeric_limits_lowest_def by simp

section \<open>Properties of the builder operations\<close>

text \<open>
  C1 (as amended). \<open>addPolygon\<close> appends point \<open>i\<close> of the triangulation it uses with
  its two coordinates and an elevation. The elevation of a point that carries the
  boundary marker 1 is the height offset plus the base elevation, without the noise
  term. When the triangulation has a marker list and the marker of the point is not 1,
  the elevation is that sum plus \<open>perlin2D x y eleNoiseFreq\<close>. When the triangulation
  has no marker list, no point receives the noise term.
\<close>

theorem addPolygon_noise_by_marker:
  assumes "i < nat (numberofpoints
             (used_triangulation (snd (addPolygon b tri mesh polygon geo app))))"
  shows "let io = used_triangulation (snd (addPolygon b tri mesh polygon geo app));
             vs = drop (length (vertices mesh))
                    (vertices (fst (addPolygon b tri mesh polygon geo app)));
             x = pointlist io ! (i * 2 + 0);
             y = pointlist io ! (i * 2 + 1);
             ele = heightOffset geo +
                     (if elevation geo > numeric_limits_lowest then elevation geo
                      else getElevation b y x)
         in vs ! (3 * i) = x \<and> vs ! (3 * i + 1) = y \<and>
            (marked_boundary io i \<longrightarrow> vs ! (3 * i + 2) = ele) \<and>
            (pointmarkerlist io \<noteq> None \<and> \<not> marked_boundary io i \<longrightarrow>
               vs ! (3 * i + 2) = ele + perlin2D b x y (eleNoiseFreq geo)) \<and>
            (pointmarkerlist io = None \<longrightarrow> vs ! (3 * i + 2) = ele)"
proof -
  let ?io = "used_triangulation (snd (addPolygon b tri mesh polygon geo app))"
  let ?vs = "drop (length (vertices mesh)) (vertices (fillMesh b ?io mesh geo app))"
  have "?vs ! (3 * i) = ?vs ! (3 * i + 0)" by simp
  then have 0: "?vs ! (3 * i) = pointlist ?io ! (i * 2 + 0)"
    by (simp only: fillMesh_vertex_at [OF assms]) simp
  have 1: "?vs ! (3 * i + 1) = pointlist ?io ! (i * 2 + 1)"
    by (simp only: fillMesh_vertex_at [OF assms]) simp
  have 2: "?vs ! (3 * i + 2) =
        (case pointmarkerlist ?io of
           None \<Rightarrow> heightOffset geo +
                   (if elevation geo > numeric_limits_lowest then elevation geo
                    else getElevation b (pointlist ?io ! (i * 2 + 1)) (pointlist ?io ! (i * 2 + 0)))
         | Some markers \<Rightarrow>
             if markers ! i \<noteq> 1
             then heightOffset geo +
                   (if elevation geo > numeric_limits_lowest then elevation geo
                    else getElevation b (pointlist ?io ! (i * 2 + 1)) (pointlist ?io ! (i * 2 + 0))) +
                  perlin2D b (pointlist ?io ! (i * 2 + 0)) (pointlist ?io ! (i * 2 + 1))
                    (eleNoiseFreq geo)
             else heightOffset geo +
                   (if elevation geo > numeric_limits_lowest then elevation geo
                    else getElevation b (pointlist ?io ! (i * 2 + 1)) (pointlist ?io ! (i * 2 + 0))))"
    by (simp only: fillMesh_vertex_at [OF assms]) simp
  show ?thesis
    unfolding Let_def addPolygon_fillMesh marked_boundary_def
    using 0 1 2 by (simp split: option.splits)
qed

text \<open>
  On the refined unit square the centre (point 4, marker 0) gets the noise term
  \<open>1 / 2\<close> and the corner 0 (marker 1) does not; on the conforming square, which has
  no marker list, corner 0 does not get it either.
\<close>

theorem addPolygon_noise_by_marker_witness:
  "4 < nat (numberofpoints (used_triangulation (snd
      (addPolygon ex_builder ex_triangulate ex_mesh ex_square (ex_geometry\<lparr>area := 1 / 10\<rparr>)
         ex_appearance)))) \<and>
   0 < nat (numberofpoints (used_triangulation (snd
      (addPolygon ex_builder ex_triangulate ex_mesh ex_square ex_geometry ex_appearance)))) \<and>
   marked_boundary ex_refined 0 \<and> \<not> marked_boundary ex_refined 4 \<and>
   pointmarkerlist ex_conforming = None \<and>
   (let vs = drop (length (vertices ex_mesh)) (vertices (fst
      (addPolygon ex_builder ex_triangulate ex_mesh ex_square (ex_geometry\<lparr>area := 1 / 10\<rparr>)
         ex_appearance)))
    in [vs ! (3 * 0), vs ! (3 * 0 + 1), vs ! (3 * 0 + 2)] = [0, 0, 3 + 10] \<and>
       [vs ! (3 * 4), vs ! (3 * 4 + 1), vs ! (3 * 4 + 2)] = [1 / 2, 1 / 2, 3 + 10 + 1 / 2]) \<and>
   (let vs = drop (length (vertices ex_mesh)) (vertices (fst
      (addPolygon ex_builder ex_triangulate ex_mesh ex_square ex_geometry ex_appearance)))
    in [vs ! (3 * 0), vs ! (3 * 0 + 1), vs ! (3 * 0 + 2)] = [0, 0, 3 + 10])"
  using
    addPolygon_noise_by_marker [where i = 4 and b = ex_builder and tri = ex_triangulate
      and mesh = ex_mesh and polygon = ex_square and geo = "ex_geometry\<lparr>area := 1 / 10\<rparr>"
      and app = ex_appearance]
    addPolygon_noise_by_marker [where i = 0 and b = ex_builder and tri = ex_triangulate
      and mesh = ex_mesh and polygon = ex_square and geo = "ex_geometry\<lparr>area := 1 / 10\<rparr>"
      and app = ex_appearance]
    addPolygon_noise_by_marker [where i = 0 and b = ex_builder and tri = ex_triangulate
      and mesh = ex_mesh and polygon = ex_square and geo = ex_geometry
      and app = ex_appearance]
  unfolding ex_used_refined ex_used_conforming
  by (simp add: Let_def marked_boundary_def ex_refined_def ex_conforming_def ex_geometry_def
        ex_builder_def)

text \<open>
  C1 as stated does not hold. On the conforming path the triangulation has no marker
  list: point 0 is not marked as boundary, and its elevation is 13, without the noise
  term \<open>1 / 2\<close>.
\<close>

theorem addPolygon_unmarked_point_counterexample:
  "\<not> (let io = used_triangulation (snd
               (addPolygon ex_builder ex_triangulate ex_mesh ex_square ex_geometry ex_appearance));
           vs = drop (length (vertices ex_mesh)) (vertices (fst
               (addPolygon ex_builder ex_triangulate ex_mesh ex_square ex_geometry ex_appearance)));
           x = pointlist io ! (0 * 2 + 0);
           y = pointlist io ! (0 * 2 + 1);
           ele = heightOffset ex_geometry +
                   (if elevation ex_geometry > numeric_limits_lowest then elevation ex_geometry
                    else getElevation ex_builder y x)
       in (marked_boundary io 0 \<longrightarrow> vs ! (3 * 0 + 2) = ele) \<and>
          (\<not> marked_boundary io 0 \<longrightarrow>
             vs ! (3 * 0 + 2) = ele + perlin2D ex_builder x y (eleNoiseFreq ex_geometry)))"
proof -
  have i: "0 < nat (numberofpoints ex_conforming)"
    by (simp add: ex_conforming_def)
  have k: "2 < (3::nat)"
    by simp
  have "drop (length (vertices ex_mesh))
          (vertices (fillMesh ex_builder ex_conforming ex_mesh ex_geometry ex_appearance)) !
          (3 * 0 + 2) = 13"
    using fillMesh_vertex_at [OF i k, of ex_mesh ex_builder ex_geometry ex_appearance]
    by (simp add: ex_conforming_def ex_geometry_def ex_builder_def)
  then show ?thesis
    unfolding Let_def addPolygon_fillMesh ex_used_conforming
    by (simp add: marked_boundary_def ex_conforming_def ex_geometry_def ex_builder_def)
qed

text \<open>
  C2. \<open>addTriangle\<close> with \<open>hasBackSide\<close> appends six vertices and six triangle
  indices. The vertices of the back side are appended in the order \<open>v2\<close>, \<open>v1\<close>,
  \<open>v0\<close>, but the first of them gets the index that \<open>v2\<close> of the front side
  already has: on the empty mesh the second triangle is (2, 3, 4), which denotes the
  vertices \<open>v2\<close>, \<open>v2\<close>, \<open>v1\<close> and not \<open>v2\<close>, \<open>v1\<close>, \<open>v0\<close>.
\<close>

theorem addTriangle_back_side_indices:
  "let mesh' = addTriangle ex_builder ex_empty (Vector3 1 2 3) (Vector3 4 5 6) (Vector3 7 8 9)
                 ex_geometry ex_appearance;
       second = drop 3 (triangles mesh')
   in hasBackSide ex_geometry \<and>
      length (vertices mesh') = 6 * 3 \<and>
      triangles mesh' = [0, 1, 2, 2, 3, 4] \<and>
      map (\<lambda>t. vertex_at mesh' (nat t)) second = [(7, 9, 8), (7, 9, 8), (4, 6, 5)] \<and>
      map (\<lambda>t. vertex_at mesh' (nat t)) second \<noteq> [(7, 9, 8), (4, 6, 5), (1, 3, 2)]"
proof -
  have b: "hasBackSide ex_geometry"
    by (simp add: ex_geometry_def)
  show ?thesis
    unfolding Let_def vertex_at_def
    by (simp add: b addTriangle_vertices addTriangle_triangles ex_empty_def Let_def)
qed

text \<open>
  C3. Every builder operation preserves the Mesh invariant: \<open>addPlane\<close> in both
  overloads and \<open>addTriangle\<close> always, \<open>addPolygon\<close> when the corners of the
  triangulation it uses are indices of that triangulation's points.
\<close>

theorem builder_operations_preserve_invariant:
  assumes "mesh_invariant mesh"
  shows "(corners_in_range (used_triangulation (snd (addPolygon b tri mesh polygon geo app))) \<longrightarrow>
            mesh_invariant (fst (addPolygon b tri mesh polygon geo app))) \<and>
         mesh_invariant (addPlane b mesh p1 p2 ele1 ele2 geo app) \<and>
         mesh_invariant (addPlaneSampled b mesh p1 p2 geo app) \<and>
         mesh_invariant (addTriangle b mesh v0 v1 v2 geo app)"
proof -
  have "mesh_invariant (fst (addPolygon b tri mesh polygon geo app))"
    if "corners_in_range (used_triangulation (snd (addPolygon b tri mesh polygon geo app)))"
    unfolding addPolygon_fillMesh by (rule fillMesh_invariant [OF assms that])
  moreover have "mesh_invariant (addPlaneSampled b mesh p1 p2 geo app)"
    unfolding addPlaneSampled_def Let_def by (rule addPlane_invariant [OF assms])
  ultimately show ?thesis
    using addPlane_invariant [OF assms] addTriangle_invariant [OF assms] by blast
qed

text \<open>
  The invariant holds of the mesh with one triangle and of the result of each operation
  on it.
\<close>

theorem builder_operations_preserve_invariant_witness:
  "mesh_invariant ex_mesh \<and>
   corners_in_range (used_triangulation (snd
      (addPolygon ex_builder ex_triangulate ex_mesh ex_square (ex_geometry\<lparr>area := 1 / 10\<rparr>)
         ex_appearance))) \<and>
   mesh_invariant (fst
      (addPolygon ex_builder ex_triangulate ex_mesh ex_square (ex_geometry\<lparr>area := 1 / 10\<rparr>)
         ex_appearance)) \<and>
   mesh_invariant (addPlane ex_builder ex_mesh (Vector2 0 0) (Vector2 1 0) 10 11
      ex_geometry ex_appearance) \<and>
   mesh_invariant (addPlaneSampled ex_builder ex_mesh (Vector2 0 0) (Vector2 1 0)
      ex_geometry ex_appearance) \<and>
   mesh_invariant (addTriangle ex_builder ex_mesh (Vector3 1 2 3) (Vector3 4 5 6) (Vector3 7 8 9)
      ex_geometry ex_appearance)"
  using
    builder_operations_preserve_invariant [OF ex_mesh_invariant, where b = ex_builder
      and tri = ex_triangulate and polygon = ex_square
      and geo = "ex_geometry\<lparr>area := 1 / 10\<rparr>" and app = ex_appearance]
    builder_operations_preserve_invariant [OF ex_mesh_invariant, where b = ex_builder
      and geo = ex_geometry and app = ex_appearance
      and ?p1.0 = "Vector2 0 0" and ?p2.0 = "Vector2 1 0" and ?ele1.0 = 10 and ?ele2.0 = 11
      and ?v0.0 = "Vector3 1 2 3" and ?v1.0 = "Vector3 4 5 6" and ?v2.0 = "Vector3 7 8 9"]
    ex_mesh_invariant ex_refined_in_range
  unfolding ex_used_refined
  by simp

text \<open>
  C4. \<open>addPolygon\<close> appends three indices for each triangle of the triangulation it
  uses, each the local corner plus the vertex count of the mesh before the call; the
  corners are visited in the order 1, 0, 2, and in the order 2, 0, 1 when \<open>flipSide\<close>
  is set.
\<close>

theorem addPolygon_triangle_corner_order:
  assumes "i < nat (numberoftriangles
             (used_triangulation (snd (addPolygon b tri mesh polygon geo app))))"
  shows "let io = used_triangulation (snd (addPolygon b tri mesh polygon geo app));
             mesh' = fst (addPolygon b tri mesh polygon geo app);
             start = int (length (vertices mesh) div 3);
             corner = (\<lambda>k. start + trianglelist io ! (i * nat (numberofcorners io) + k));
             ts = drop (length (triangles mesh)) (triangles mesh')
         in length ts = 3 * nat (numberoftriangles io) \<and>
            [ts ! (3 * i), ts ! (3 * i + 1), ts ! (3 * i + 2)] =
              (if flipSide geo then [corner 2, corner 0, corner 1]
               else [corner 1, corner 0, corner 2])"
proof -
  let ?io = "used_triangulation (snd (addPolygon b tri mesh polygon geo app))"
  let ?ts = "drop (length (triangles mesh)) (triangles (fillMesh b ?io mesh geo app))"
  have len: "length ?ts = 3 * nat (numberoftriangles ?io)"
    by (simp add: fillMesh_triangles length_concat_upt)
  have "?ts ! (3 * i) = ?ts ! (3 * i + 0)" by simp
  then have 0: "?ts ! (3 * i) = int (length (vertices mesh) div 3) +
        trianglelist ?io ! (i * nat (numberofcorners ?io) + (if flipSide geo then 2 else 1))"
    by (simp only: fillMesh_triangle_at [OF assms]) simp
  have 1: "?ts ! (3 * i + 1) = int (length (vertices mesh) div 3) +
        trianglelist ?io ! (i * nat (numberofcorners ?io) + 0)"
    by (simp only: fillMesh_triangle_at [OF assms]) simp
  have 2: "?ts ! (3 * i + 2) = int (length (vertices mesh) div 3) +
        trianglelist ?io ! (i * nat (numberofcorners ?io) + (if flipSide geo then 1 else 2))"
    by (simp only: fillMesh_triangle_at [OF assms]) simp
  show ?thesis
    unfolding Let_def addPolygon_fillMesh
    using len 0 1 2 by simp
qed

text \<open>
  The second triangle of the conforming square has the corners 0, 2, 3; the mesh holds
  three vertices before the call.
\<close>

theorem addPolygon_triangle_corner_order_witness:
  "1 < nat (numberoftriangles (used_triangulation (snd
      (addPolygon ex_builder ex_triangulate ex_mesh ex_square ex_geometry ex_appearance)))) \<and>
   1 < nat (numberoftriangles (used_triangulation (snd
      (addPolygon ex_builder ex_triangulate ex_mesh ex_square (ex_geometry\<lparr>flipSide := True\<rparr>)
         ex_appearance)))) \<and>
   (let ts = drop (length (triangles ex_mesh)) (triangles (fst
      (addPolygon ex_builder ex_triangulate ex_mesh ex_square ex_geometry ex_appearance)))
    in length ts = 6 \<and> [ts ! (3 * 1), ts ! (3 * 1 + 1), ts ! (3 * 1 + 2)] = [3 + 2, 3 + 0, 3 + 3]) \<and>
   (let ts = drop (length (triangles ex_mesh)) (triangles (fst
      (addPolygon ex_builder ex_triangulate ex_mesh ex_square (ex_geometry\<lparr>flipSide := True\<rparr>)
         ex_appearance)))
    in length ts = 6 \<and> [ts ! (3 * 1), ts ! (3 * 1 + 1), ts ! (3 * 1 + 2)] = [3 + 3, 3 + 0, 3 + 2])"
  using
    addPolygon_triangle_corner_order [where i = 1 and b = ex_builder and tri = ex_triangulate
      and mesh = ex_mesh and polygon = ex_square and geo = ex_geometry and app = ex_appearance]
    addPolygon_triangle_corner_order [where i = 1 and b = ex_builder and tri = ex_triangulate
      and mesh = ex_mesh and polygon = ex_square and geo = "ex_geometry\<lparr>flipSide := True\<rparr>"
      and app = ex_appearance]
  unfolding ex_used_conforming ex_used_conforming_flipped
  by (simp add: Let_def ex_conforming_def ex_geometry_def ex_mesh_def)

text \<open>
  C5. \<open>addPlane\<close> appends six vertices and two triangles. The third appended vertex
  has the coordinates of the second and the fourth those of the first, each with
  \<open>heightOffset\<close> added to the elevation. All six vertices get the one colour that the
  gradient gives for the noise at \<open>p1\<close>. The overload that samples the elevations is
  the same operation on the sampled elevations.
\<close>

theorem addPlane_six_vertices_one_color:
  "let mesh' = addPlane b mesh p1 p2 ele1 ele2 geo app;
       vs = drop (length (vertices mesh)) (vertices mesh');
       color = gradient app ((perlin2D b (x2 p1) (y2 p1) (colorNoiseFreq app) + 1) / 2)
   in length vs = 6 * 3 \<and>
      length (triangles mesh') = length (triangles mesh) + 2 * 3 \<and>
      [vs ! 6, vs ! 7, vs ! 8] = [vs ! 3, vs ! 4, vs ! 5 + heightOffset geo] \<and>
      [vs ! 9, vs ! 10, vs ! 11] = [vs ! 0, vs ! 1, vs ! 2 + heightOffset geo] \<and>
      drop (length (colors mesh)) (colors mesh') = replicate 6 color \<and>
      addPlaneSampled b mesh p1 p2 geo app =
        addPlane b mesh p1 p2
          (getElevation b (y2 p1) (x2 p1) + perlin2D b (x2 p1) (y2 p1) (eleNoiseFreq geo))
          (getElevation b (y2 p2) (x2 p2) + perlin2D b (x2 p2) (y2 p2) (eleNoiseFreq geo))
          geo app"
  unfolding Let_def
  by (simp add: addPlane_vertices addPlane_colors addPlane_triangles addPlaneSampled_def
      replicate_6 Let_def)

text \<open>
  C6. When the texture region is empty, every uv value appended by a builder operation
  is 0, two for each appended vertex.
\<close>

theorem empty_texture_region_uvs_zero:
  assumes "isEmpty (textureRegion app)"
  shows "drop (length (uvs mesh)) (uvs (fst (addPolygon b tri mesh polygon geo app))) =
           replicate (2 * nat (numberofpoints
              (used_triangulation (snd (addPolygon b tri mesh polygon geo app))))) 0 \<and>
         drop (length (uvs mesh)) (uvs (addPlane b mesh p1 p2 ele1 ele2 geo app)) =
           replicate (2 * 6) 0 \<and>
         drop (length (uvs mesh)) (uvs (addPlaneSampled b mesh p1 p2 geo app)) =
           replicate (2 * 6) 0 \<and>
         drop (length (uvs mesh)) (uvs (addTriangle b mesh v0 v1 v2 geo app)) =
           replicate (2 * (if hasBackSide geo then 6 else 3)) 0"
proof -
  have "drop (length (uvs mesh)) (uvs (fst (addPolygon b tri mesh polygon geo app))) =
           replicate (2 * nat (numberofpoints
              (used_triangulation (snd (addPolygon b tri mesh polygon geo app))))) 0"
    unfolding addPolygon_fillMesh
    by (simp add: fillMesh_uvs createMapFunc_empty [OF assms] concat_replicate_pair)
  then show ?thesis
    by (simp add: addPlane_uvs addTriangle_uvs addPlaneSampled_def replicate_6 replicate_12 Let_def)
qed

text \<open>
  The operations on the mesh with one triangle, with an empty texture region.
\<close>

theorem empty_texture_region_uvs_zero_witness:
  "isEmpty (textureRegion ex_appearance) \<and>
   drop (length (uvs ex_mesh)) (uvs (fst
      (addPolygon ex_builder ex_triangulate ex_mesh ex_square ex_geometry ex_appearance))) =
     replicate (2 * 4) 0 \<and>
   drop (length (uvs ex_mesh)) (uvs (addPlane ex_builder ex_mesh (Vector2 0 0) (Vector2 1 0) 10 11
      ex_geometry ex_appearance)) = replicate (2 * 6) 0 \<and>
   drop (length (uvs ex_mesh)) (uvs (addPlaneSampled ex_builder ex_mesh (Vector2 0 0) (Vector2 1 0)
      ex_geometry ex_appearance)) = replicate (2 * 6) 0 \<and>
   drop (length (uvs ex_mesh)) (uvs (addTriangle ex_builder ex_mesh
      (Vector3 1 2 3) (Vector3 4 5 6) (Vector3 7 8 9) ex_geometry ex_appearance)) =
     replicate (2 * 6) 0"
proof -
  have e: "isEmpty (textureRegion ex_appearance)"
    by (simp add: ex_appearance_def)
  have b: "hasBackSide ex_geometry"
    by (simp add: ex_geometry_def)
  show ?thesis
    using e b
      empty_texture_region_uvs_zero [OF e, where b = ex_builder and tri = ex_triangulate
        and mesh = ex_mesh and polygon = ex_square and geo = ex_geometry
        and ?p1.0 = "Vector2 0 0" and ?p2.0 = "Vector2 1 0" and ?ele1.0 = 10 and ?ele2.0 = 11
        and ?v0.0 = "Vector3 1 2 3" and ?v1.0 = "Vector3 4 5 6" and ?v2.0 = "Vector3 7 8 9"]
    unfolding ex_used_conforming
    by (simp add: ex_conforming_def)
qed

text \<open>
  C7. When the absolute value of \<open>area\<close> is below epsilon, \<open>addPolygon\<close> calls
  \<open>triangulate\<close> once, with the switches \<open>pzBQ\<close>, and fills the mesh from that
  result. Otherwise it calls it a second time, on the first result in which every
  triangle has the area bound \<open>area\<close>, with the switches \<open>prazPQ\<close> followed by
  \<open>segmentSplit\<close> times \<open>Y\<close>, and fills the mesh from the second result.
\<close>

theorem addPolygon_refinement_choice:
  "let in_io = polygon_input polygon;
       mid = tri ''pzBQ'' in_io;
       (mesh', calls) = addPolygon b tri mesh polygon geo app
   in (\<bar>area geo\<bar> < numeric_limits_epsilon \<longrightarrow>
         calls = [(''pzBQ'', in_io, mid)] \<and>
         mesh' = fillMesh b mid mesh geo app) \<and>
      (\<not> \<bar>area geo\<bar> < numeric_limits_epsilon \<longrightarrow>
         length calls = 2 \<and> calls ! 0 = (''pzBQ'', in_io, mid) \<and>
         (let (switches, refine_in, out) = calls ! 1
          in switches = ''prazPQ'' @ replicate (nat (segmentSplit geo)) CHR ''Y'' \<and>
             count_list switches CHR ''Y'' = nat (segmentSplit geo) \<and>
             refine_in = mid\<lparr>trianglearealist :=
               Some (replicate (nat (numberoftriangles mid)) (area geo))\<rparr> \<and>
             out = tri switches refine_in \<and>
             mesh' = fillMesh b out mesh geo app))"
  unfolding addPolygon_def Let_def by (simp add: count_list_replicate_same)

text \<open>
  With \<open>area = 0\<close> the library is called once; with \<open>area = 1 / 10\<close> and
  \<open>segmentSplit = 2\<close> the second call has the switches \<open>prazPQYY\<close> and the area
  bound \<open>1 / 10\<close> on both triangles.
\<close>

theorem addPolygon_refinement_choice_witness:
  "\<bar>area ex_geometry\<bar> < numeric_limits_epsilon \<and>
   snd (addPolygon ex_builder ex_triangulate ex_mesh ex_square ex_geometry ex_appearance) =
     [(''pzBQ'', polygon_input ex_square, ex_conforming)] \<and>
   fst (addPolygon ex_builder ex_triangulate ex_mesh ex_square ex_geometry ex_appearance) =
     fillMesh ex_builder ex_conforming ex_mesh ex_geometry ex_appearance \<and>
   \<not> \<bar>area (ex_geometry\<lparr>area := 1 / 10\<rparr>)\<bar> < numeric_limits_epsilon \<and>
   length (snd (addPolygon ex_builder ex_triangulate ex_mesh ex_square
      (ex_geometry\<lparr>area := 1 / 10\<rparr>) ex_appearance)) = 2 \<and>
   snd (addPolygon ex_builder ex_triangulate ex_mesh ex_square
      (ex_geometry\<lparr>area := 1 / 10\<rparr>) ex_appearance) ! 1 =
     (''prazPQYY'', ex_conforming\<lparr>trianglearealist := Some [1 / 10, 1 / 10]\<rparr>, ex_refined) \<and>
   fst (addPolygon ex_builder ex_triangulate ex_mesh ex_square
      (ex_geometry\<lparr>area := 1 / 10\<rparr>) ex_appearance) =
     fillMesh ex_builder ex_refined ex_mesh (ex_geometry\<lparr>area := 1 / 10\<rparr>) ex_appearance"
proof -
  have small: "\<bar>area ex_geometry\<bar> < numeric_limits_epsilon"
    by (simp add: ex_geometry_def numeric_limits_epsilon_def)
  have large: "\<not> \<bar>area (ex_geometry\<lparr>area := 1 / 10\<rparr>)\<bar> < numeric_limits_epsilon"
    by (simp add: ex_geometry_def numeric_limits_epsilon_def)
  have split: "segmentSplit (ex_geometry\<lparr>area := 1 / 10\<rparr>) = 2"
    "numberoftriangles ex_conforming = 2"
    by (simp_all add: ex_geometry_def ex_conforming_def)
  have first: "ex_triangulate ''pzBQ'' io = ex_conforming" for io
    by (simp add: ex_triangulate_def)
  have second: "ex_triangulate ''prazPQYY'' io = ex_refined" for io
    by (simp add: ex_triangulate_def)
  have two: "replicate (nat 2) c = [c, c]" for c :: 'a
    by (simp add: numeral_2_eq_2)
  from small large
    addPolygon_refinement_choice [where b = ex_builder and tri = ex_triangulate
      and mesh = ex_mesh and polygon = ex_square and geo = ex_geometry and app = ex_appearance]
    addPolygon_refinement_choice [where b = ex_builder and tri = ex_triangulate
      and mesh = ex_mesh and polygon = ex_square and geo = "ex_geometry\<lparr>area := 1 / 10\<rparr>"
      and app = ex_appearance]
  show ?thesis
    unfolding Let_def split_beta first split two
    by (simp add: second prod_eq_iff)
qed

text \<open>
  C8. Every builder operation only appends: each buffer of the mesh before the call
  is an initial part of the same buffer after the call.
\<close>

theorem builder_operations_only_append:
  "mesh_extends mesh (fst (addPolygon b tri mesh polygon geo app)) \<and>
   mesh_extends mesh (addPlane b mesh p1 p2 ele1 ele2 geo app) \<and>
   mesh_extends mesh (addPlaneSampled b mesh p1 p2 geo app) \<and>
   mesh_extends mesh (addTriangle b mesh v0 v1 v2 geo app)"
proof -
  have polygon: "mesh_extends mesh (fst (addPolygon b tri mesh polygon geo app))"
    unfolding mesh_extends_def addPolygon_fillMesh
    by (simp add: fillMesh_vertices fillMesh_colors fillMesh_uvs fillMesh_triangles)
  have plane: "mesh_extends mesh (addPlane b mesh p1 p2 e1 e2 geo app)" for e1 e2
    unfolding mesh_extends_def
    by (simp add: addPlane_vertices addPlane_colors addPlane_uvs addPlane_triangles)
  have sampled: "mesh_extends mesh (addPlaneSampled b mesh p1 p2 geo app)"
    unfolding addPlaneSampled_def Let_def by (rule plane)
  have triangle: "mesh_extends mesh (addTriangle b mesh v0 v1 v2 geo app)"
    unfolding mesh_extends_def
    by (simp add: addTriangle_vertices addTriangle_colors addTriangle_uvs addTriangle_triangles)
  from polygon plane sampled triangle show ?thesis by blast
qed

text \<open>
  C9. Every uv value appended by \<open>addPlane\<close> (both overloads) and \<open>addTriangle\<close> is
  0, whatever the texture region is; \<open>addPolygon\<close> appends for each point of the
  triangulation the two components of the texture mapping at that point.
\<close>

theorem plane_and_triangle_uvs_zero:
  "drop (length (uvs mesh)) (uvs (addPlane b mesh p1 p2 ele1 ele2 geo app)) = replicate (2 * 6) 0 \<and>
   drop (length (uvs mesh)) (uvs (addPlaneSampled b mesh p1 p2 geo app)) = replicate (2 * 6) 0 \<and>
   drop (length (uvs mesh)) (uvs (addTriangle b mesh v0 v1 v2 geo app)) =
     replicate (2 * (if hasBackSide geo then 6 else 3)) 0 \<and>
   (let io = used_triangulation (snd (addPolygon b tri mesh polygon geo app));
        us = drop (length (uvs mesh)) (uvs (fst (addPolygon b tri mesh polygon geo app)))
    in \<forall>i < nat (numberofpoints io).
         Vector2 (us ! (2 * i)) (us ! (2 * i + 1)) =
           createMapFunc b app (pointlist io ! (i * 2 + 0)) (pointlist io ! (i * 2 + 1)))"
proof -
  let ?io = "used_triangulation (snd (addPolygon b tri mesh polygon geo app))"
  let ?us = "drop (length (uvs mesh)) (uvs (fillMesh b ?io mesh geo app))"
  have "Vector2 (?us ! (2 * i)) (?us ! (2 * i + 1)) =
          createMapFunc b app (pointlist ?io ! (i * 2 + 0)) (pointlist ?io ! (i * 2 + 1))"
    if i: "i < nat (numberofpoints ?io)" for i
  proof -
    have "?us ! (2 * i) = ?us ! (2 * i + 0)" by simp
    then have 0: "?us ! (2 * i) =
        x2 (createMapFunc b app (pointlist ?io ! (i * 2 + 0)) (pointlist ?io ! (i * 2 + 1)))"
      by (simp only: fillMesh_uv_at [OF i]) simp
    have 1: "?us ! (2 * i + 1) =
        y2 (createMapFunc b app (pointlist ?io ! (i * 2 + 0)) (pointlist ?io ! (i * 2 + 1)))"
      by (simp only: fillMesh_uv_at [OF i]) simp
    show ?thesis
      unfolding 0 1 by simp
  qed
  then show ?thesis
    unfolding Let_def addPolygon_fillMesh
    by (simp add: addPlane_uvs addTriangle_uvs addPlaneSampled_def replicate_6 replicate_12 Let_def)
qed

text \<open>
  With a texture region that is not empty, point 2 of the square, at (1, 1), gets the
  texture coordinate (1 / 4, 1 / 2) from \<open>addPolygon\<close>, and the vertices of
  \<open>addPlane\<close> and \<open>addTriangle\<close> get 0.
\<close>

theorem plane_and_triangle_uvs_zero_witness:
  "\<not> isEmpty (textureRegion ex_textured) \<and>
   2 < nat (numberofpoints (used_triangulation (snd
      (addPolygon ex_builder ex_triangulate ex_mesh ex_square ex_geometry ex_textured)))) \<and>
   (let us = drop (length (uvs ex_mesh)) (uvs (fst
      (addPolygon ex_builder ex_triangulate ex_mesh ex_square ex_geometry ex_textured)))
    in Vector2 (us ! (2 * 2)) (us ! (2 * 2 + 1)) = Vector2 (1 / 4) (1 / 2)) \<and>
   drop (length (uvs ex_mesh)) (uvs (addPlane ex_builder ex_mesh (Vector2 0 0) (Vector2 1 0) 10 11
      ex_geometry ex_textured)) = replicate (2 * 6) 0 \<and>
   drop (length (uvs ex_mesh)) (uvs (addPlaneSampled ex_builder ex_mesh (Vector2 0 0) (Vector2 1 0)
      ex_geometry ex_textured)) = replicate (2 * 6) 0 \<and>
   drop (length (uvs ex_mesh)) (uvs (addTriangle ex_builder ex_mesh
      (Vector3 1 2 3) (Vector3 4 5 6) (Vector3 7 8 9) ex_geometry ex_textured)) =
     replicate (2 * 6) 0"
proof -
  note all = plane_and_triangle_uvs_zero [where b = ex_builder and tri = ex_triangulate
        and mesh = ex_mesh and polygon = ex_square and geo = ex_geometry and app = ex_textured
        and ?p1.0 = "Vector2 0 0" and ?p2.0 = "Vector2 1 0" and ?ele1.0 = 10 and ?ele2.0 = 11
        and ?v0.0 = "Vector3 1 2 3" and ?v1.0 = "Vector3 4 5 6" and ?v2.0 = "Vector3 7 8 9",
        unfolded Let_def ex_used_conforming]
  have n: "2 < nat (numberofpoints ex_conforming)"
    by (simp add: ex_conforming_def)
  from all have "\<forall>i < nat (numberofpoints ex_conforming).
     Vector2
       (drop (length (uvs ex_mesh)) (uvs (fst
          (addPolygon ex_builder ex_triangulate ex_mesh ex_square ex_geometry ex_textured))) ! (2 * i))
       (drop (length (uvs ex_mesh)) (uvs (fst
          (addPolygon ex_builder ex_triangulate ex_mesh ex_square ex_geometry ex_textured))) ! (2 * i + 1)) =
     createMapFunc ex_builder ex_textured
       (pointlist ex_conforming ! (i * 2 + 0)) (pointlist ex_conforming ! (i * 2 + 1))"
    by blast
  with n have "Vector2
       (drop (length (uvs ex_mesh)) (uvs (fst
          (addPolygon ex_builder ex_triangulate ex_mesh ex_square ex_geometry ex_textured))) ! (2 * 2))
       (drop (length (uvs ex_mesh)) (uvs (fst
          (addPolygon ex_builder ex_triangulate ex_mesh ex_square ex_geometry ex_textured))) ! (2 * 2 + 1)) =
     createMapFunc ex_builder ex_textured
       (pointlist ex_conforming ! (2 * 2 + 0)) (pointlist ex_conforming ! (2 * 2 + 1))"
    by blast
  moreover have "createMapFunc ex_builder ex_textured
       (pointlist ex_conforming ! (2 * 2 + 0)) (pointlist ex_conforming ! (2 * 2 + 1)) =
       Vector2 (1 / 4) (1 / 2)"
    by (simp add: createMapFunc_def ex_builder_def ex_textured_def ex_conforming_def Let_def)
  moreover have "hasBackSide ex_geometry" "\<not> isEmpty (textureRegion ex_textured)"
    by (simp_all add: ex_geometry_def ex_textured_def)
  ultimately show ?thesis
    using all n unfolding Let_def ex_used_conforming by simp
qed

text \<open>
  C10. The overload of \<open>addPlane\<close> that samples the elevations does not depend on
  \<open>geometryOptions.elevation\<close>: the elevations of its first two vertices are the
  elevation of the provider plus the noise term.
\<close>

theorem addPlaneSampled_ignores_elevation_override:
  "addPlaneSampled b mesh p1 p2 (geo\<lparr>elevation := e\<rparr>) app =
     addPlaneSampled b mesh p1 p2 geo app \<and>
   (let vs = drop (length (vertices mesh)) (vertices (addPlaneSampled b mesh p1 p2 geo app))
    in vs ! 2 = getElevation b (y2 p1) (x2 p1) + perlin2D b (x2 p1) (y2 p1) (eleNoiseFreq geo) \<and>
       vs ! 5 = getElevation b (y2 p2) (x2 p2) + perlin2D b (x2 p2) (y2 p2) (eleNoiseFreq geo))"
proof -
  have plane: "addPlane b mesh p1 p2 ele1 ele2 (geo\<lparr>elevation := e\<rparr>) app =
               addPlane b mesh p1 p2 ele1 ele2 geo app" for ele1 ele2
    unfolding addPlane_def by simp
  show ?thesis
    unfolding Let_def
    by (simp add: addPlaneSampled_def plane addPlane_vertices Let_def)
qed

text \<open>
  An example with the explicit elevation 5: the sampling overload of \<open>addPlane\<close>
  still takes the elevation 10 of the provider and adds the noise \<open>1 / 2\<close>, where
  \<open>addPolygon\<close> takes the explicit elevation and adds the height offset 3.
\<close>

lemma elevation_override_example:
  "let geo = ex_geometry\<lparr>elevation := 5\<rparr>;
       plane = drop (length (vertices ex_mesh)) (vertices
         (addPlaneSampled ex_builder ex_mesh (Vector2 0 0) (Vector2 1 0) geo ex_appearance));
       polygon = drop (length (vertices ex_mesh)) (vertices (fst
         (addPolygon ex_builder ex_triangulate ex_mesh ex_square geo ex_appearance)))
   in plane ! 2 = 10 + 1 / 2 \<and> polygon ! (3 * 0 + 2) = 3 + 5"
proof -
  have used: "used_triangulation (snd (addPolygon ex_builder ex_triangulate ex_mesh ex_square
      (ex_geometry\<lparr>elevation := 5\<rparr>) ex_appearance)) = ex_conforming"
    unfolding addPolygon_def Let_def used_triangulation_def
    by (simp add: ex_geometry_def ex_triangulate_def numeric_limits_epsilon_def)
  have i: "0 < nat (numberofpoints ex_conforming)"
    by (simp add: ex_conforming_def)
  have k: "2 < (3::nat)"
    by simp
  have over: "numeric_limits_lowest < 5"
    using numeric_limits_lowest_negative by simp
  have "drop (length (vertices ex_mesh))
          (vertices (fillMesh ex_builder ex_conforming ex_mesh (ex_geometry\<lparr>elevation := 5\<rparr>)
             ex_appearance)) ! (3 * 0 + 2) = 3 + 5"
    using fillMesh_vertex_at [OF i k, of ex_mesh ex_builder "ex_geometry\<lparr>elevation := 5\<rparr>"
        ex_appearance] over
    by (simp add: ex_conforming_def ex_geometry_def ex_builder_def)
  then show ?thesis
    unfolding Let_def addPolygon_fillMesh used
    by (simp add: addPlaneSampled_def addPlane_vertices ex_geometry_def ex_builder_def Let_def)
qed

end
